theory Spec2Isabelle
  imports Main "HOL-Library.Char_ord" "HOL-Library.List_Lexorder" "HOL-Library.AList"
begin

section \<open>Python values\<close>

text \<open>
  The store of \<^verbatim>\<open>pipx_metadata_file.py\<close> holds dynamically typed Python values: the
  annotations of the dataclass are not enforced, and \<^verbatim>\<open>from_dict\<close> fills the fields with
  whatever the file held. The model therefore has one type of values. A string is a list
  of characters (code points below 256), an integer is unbounded, a dict with string keys
  is an association list in insertion order (a real dict has distinct keys), and a
  \<^verbatim>\<open>pathlib.Path\<close> (a POSIX path) is represented by the string \<^verbatim>\<open>str\<close> gives for it, which
  is in the normal form of \<^verbatim>\<open>pathlib\<close>. Floats are left out: no field of the store holds one.
\<close>

datatype path = Path (path_str: string)

datatype pyval =
    PNone
  | PBool bool
  | PInt int
  | PStr string
  | PPath path
  | PList "pyval list"
  | PDict "(string \<times> pyval) list"

text \<open>The document a JSON text denotes; the members of an object are in the order of the text.\<close>

datatype json =
    JNull
  | JBool bool
  | JInt int
  | JStr string
  | JArr "json list"
  | JObj "(string \<times> json) list"

datatype pipx_message =
    Unknown_metadata_version string string
  | PipxMetadata_is_corrupt

datatype error =
    PipxError pipx_message
  | KeyError string
  | TypeError
  | AttributeError
  | JSONDecodeError

subsection \<open>Built-in operations the module uses\<close>

text \<open>\<^verbatim>\<open>bool(x)\<close>: a \<^verbatim>\<open>Path\<close> defines neither \<^verbatim>\<open>__bool__\<close> nor \<^verbatim>\<open>__len__\<close>, so it is always true.\<close>

fun truthy :: "pyval \<Rightarrow> bool" where
  "truthy PNone = False"
| "truthy (PBool b) = b"
| "truthy (PInt i) = (i \<noteq> 0)"
| "truthy (PStr s) = (s \<noteq> [])"
| "truthy (PPath p) = True"
| "truthy (PList xs) = (xs \<noteq> [])"
| "truthy (PDict kvs) = (kvs \<noteq> [])"

text \<open>\<^verbatim>\<open>obj[key]\<close> with a string key: only a dict accepts it.\<close>

fun getitem :: "pyval \<Rightarrow> string \<Rightarrow> error + pyval" where
  "getitem (PDict d) k = (case map_of d k of None \<Rightarrow> Inl (KeyError k) | Some v \<Rightarrow> Inr v)"
| "getitem _ k = Inl TypeError"

text \<open>\<^verbatim>\<open>obj[key] = value\<close> with a string key: a key already there keeps its place.\<close>

fun setitem :: "pyval \<Rightarrow> string \<Rightarrow> pyval \<Rightarrow> error + pyval" where
  "setitem (PDict d) k v = Inr (PDict (AList.update k v d))"
| "setitem _ k v = Inl TypeError"

text \<open>\<^verbatim>\<open>d.get(key, default)\<close> on a dict.\<close>

definition dict_get :: "(string \<times> 'v) list \<Rightarrow> string \<Rightarrow> 'v \<Rightarrow> 'v" where
  "dict_get d k dflt = (case map_of d k of None \<Rightarrow> dflt | Some v \<Rightarrow> v)"

text \<open>\<^verbatim>\<open>x in s\<close> for a string \<^verbatim>\<open>s\<close>: the substring test; a left operand that is no string raises.\<close>

fun is_substring :: "string \<Rightarrow> string \<Rightarrow> bool" where
  "is_substring x [] = (x = [])"
| "is_substring x (c # cs) = (take (length x) (c # cs) = x \<or> is_substring x cs)"

fun in_str :: "pyval \<Rightarrow> string \<Rightarrow> error + bool" where
  "in_str (PStr x) s = Inr (is_substring x s)"
| "in_str _ s = Inl TypeError"

text \<open>
  \<^verbatim>\<open>s.replace(old, new)\<close>: every occurrence of \<^verbatim>\<open>old\<close>, found from the left without
  overlap; an empty \<^verbatim>\<open>old\<close> matches before every character and at the end.
\<close>

function str_replace :: "string \<Rightarrow> string \<Rightarrow> string \<Rightarrow> string" where
  "str_replace [] old new = (if old = [] then new else [])"
| "str_replace (c # cs) old new =
     (if old = [] then new @ c # str_replace cs old new
      else if take (length old) (c # cs) = old
        then new @ str_replace (drop (length old) (c # cs)) old new
      else c # str_replace cs old new)"
  by pat_completeness auto
termination
  by (relation "measure (\<lambda>(s, old, new). length s)") (auto simp: neq_Nil_conv)

fun replace :: "string \<Rightarrow> pyval \<Rightarrow> string \<Rightarrow> error + string" where
  "replace s (PStr old) new = Inr (str_replace s old new)"
| "replace s _ new = Inl TypeError"

text \<open>
  The normal form \<^verbatim>\<open>pathlib\<close> gives a POSIX path: empty components and the components
  \<^verbatim>\<open>.\<close> are dropped (so doubled and trailing slashes go), exactly two leading slashes
  are kept, any other number of them is one, and the empty path is \<^verbatim>\<open>.\<close>.
\<close>

fun split_on :: "char \<Rightarrow> string \<Rightarrow> string list" where
  "split_on c [] = [[]]"
| "split_on c (x # xs) =
     (if x = c then [] # split_on c xs
      else (case split_on c xs of [] \<Rightarrow> [[x]] | p # ps \<Rightarrow> (x # p) # ps))"

fun join_with :: "string \<Rightarrow> string list \<Rightarrow> string" where
  "join_with sep [] = []"
| "join_with sep [x] = x"
| "join_with sep (x # y # ys) = x @ sep @ join_with sep (y # ys)"

definition normpath :: "string \<Rightarrow> string" where
  "normpath s =
     (let parts = filter (\<lambda>p. p \<noteq> [] \<and> p \<noteq> ''.'') (split_on CHR ''/'' s);
          root = (if take 2 s = ''//'' \<and> take 3 s \<noteq> ''///'' then ''//''
                  else if take 1 s = ''/'' then ''/'' else []);
          r = root @ join_with ''/'' parts
      in if r = [] then ''.'' else r)"

text \<open>
  \<^verbatim>\<open>Path(x)\<close>: a string is parsed and brought into normal form, a path is taken as it is,
  anything else raises.
\<close>

fun Path_of :: "pyval \<Rightarrow> error + pyval" where
  "Path_of (PStr s) = Inr (PPath (Path (normpath s)))"
| "Path_of (PPath p) = Inr (PPath p)"
| "Path_of _ = Inl TypeError"

text \<open>
  \<^verbatim>\<open>p.name\<close> and \<^verbatim>\<open>p / child\<close> on the string form of a POSIX path: the name is the last
  component (empty for the current directory and for a root).
\<close>

definition path_name :: "path \<Rightarrow> string" where
  "path_name p =
     (if path_str p = ''.'' then []
      else rev (takeWhile (\<lambda>c. c \<noteq> CHR ''/'') (rev (path_str p))))"

definition joinpath :: "path \<Rightarrow> string \<Rightarrow> path" where
  "joinpath p child =
     (if path_str p = ''.'' then Path child
      else if path_str p \<noteq> [] \<and> last (path_str p) = CHR ''/'' then Path (path_str p @ child)
      else Path (path_str p @ ''/'' @ child))"

subsection \<open>Formatting a value in an f-string\<close>

function digits_of_nat :: "nat \<Rightarrow> string" where
  "digits_of_nat n =
     (if n < 10 then [''0123456789'' ! n]
      else digits_of_nat (n div 10) @ [''0123456789'' ! (n mod 10)])"
  by pat_completeness auto
termination
  by (relation "measure id") auto

definition repr_int :: "int \<Rightarrow> string" where
  "repr_int i = (if i < 0 then CHR ''-'' # digits_of_nat (nat (- i)) else digits_of_nat (nat i))"

definition printable :: "char \<Rightarrow> bool" where
  "printable c =
     (let n = (of_char c :: nat) in (32 \<le> n \<and> n < 127) \<or> (161 \<le> n \<and> n \<noteq> 173))"

definition repr_char :: "char \<Rightarrow> char \<Rightarrow> string" where
  "repr_char q c =
     (if c = q \<or> c = CHR 0x5C then [CHR 0x5C, c]
      else if c = CHR 0x09 then [CHR 0x5C, CHR ''t'']
      else if c = CHR 0x0A then [CHR 0x5C, CHR ''n'']
      else if c = CHR 0x0D then [CHR 0x5C, CHR ''r'']
      else if printable c then [c]
      else [CHR 0x5C, CHR ''x'',
            ''0123456789abcdef'' ! ((of_char c :: nat) div 16),
            ''0123456789abcdef'' ! ((of_char c :: nat) mod 16)])"

definition repr_str :: "string \<Rightarrow> string" where
  "repr_str s =
     (let q = (if CHR 0x27 \<in> set s \<and> CHR 0x22 \<notin> set s then CHR 0x22 else CHR 0x27)
      in q # concat (map (repr_char q) s) @ [q])"

fun repr :: "pyval \<Rightarrow> string" where
  "repr PNone = ''None''"
| "repr (PBool b) = (if b then ''True'' else ''False'')"
| "repr (PInt i) = repr_int i"
| "repr (PStr s) = repr_str s"
| "repr (PPath p) = ''PosixPath('' @ repr_str (path_str p) @ '')''"
| "repr (PList xs) = ''['' @ join_with '', '' (map repr xs) @ '']''"
| "repr (PDict kvs) =
     ''{'' @ join_with '', '' (map (\<lambda>kv. repr_str (fst kv) @ '': '' @ repr (snd kv)) kvs) @ ''}''"

text \<open>\<^verbatim>\<open>f"{x}"\<close>: a string stands for itself, a path for its string form, the rest as \<^verbatim>\<open>repr\<close>.\<close>

fun format :: "pyval \<Rightarrow> string" where
  "format (PStr s) = s"
| "format (PPath p) = path_str p"
| "format v = repr v"

section \<open>The package record and the store\<close>

text \<open>
  \<^verbatim>\<open>PackageInfo\<close> is a frozen dataclass of sixteen fields; the last six have defaults.
  \<^verbatim>\<open>PipxMetadata\<close> holds the environment directory, the main package, three more fields
  and the injected packages, a dict from names to package records.
\<close>

record PackageInfo =
  package :: pyval
  package_or_url :: pyval
  pip_args :: pyval
  include_dependencies :: pyval
  include_apps :: pyval
  apps :: pyval
  app_paths :: pyval
  apps_of_dependencies :: pyval
  app_paths_of_dependencies :: pyval
  package_version :: pyval
  man_pages :: pyval
  man_paths :: pyval
  man_pages_of_dependencies :: pyval
  man_paths_of_dependencies :: pyval
  suffix :: pyval
  pinned :: pyval

record PipxMetadata =
  venv_dir :: path
  main_package :: PackageInfo
  python_version :: pyval
  source_interpreter :: pyval
  venv_args :: pyval
  injected_packages :: "(string \<times> PackageInfo) list"

definition PIPX_INFO_FILENAME :: string where
  "PIPX_INFO_FILENAME = ''pipx_metadata.json''"

definition METADATA_VERSION :: string where
  "METADATA_VERSION = ''0.5''"

definition required_fields :: "string list" where
  "required_fields =
     [''package'', ''package_or_url'', ''pip_args'', ''include_dependencies'', ''include_apps'',
      ''apps'', ''app_paths'', ''apps_of_dependencies'', ''app_paths_of_dependencies'',
      ''package_version'']"

definition defaulted_fields :: "string list" where
  "defaulted_fields =
     [''man_pages'', ''man_paths'', ''man_pages_of_dependencies'', ''man_paths_of_dependencies'',
      ''suffix'', ''pinned'']"

text \<open>
  \<^verbatim>\<open>PackageInfo(**data)\<close>: the argument must be a mapping, every key must name a field and
  every field without a default must be given; the values are taken as they are.
\<close>

fun PackageInfo_of :: "pyval \<Rightarrow> error + PackageInfo" where
  "PackageInfo_of (PDict d) =
     (if list_ex (\<lambda>k. k \<notin> set (required_fields @ defaulted_fields)) (map fst d) then Inl TypeError
      else if list_ex (\<lambda>k. map_of d k = None) required_fields then Inl TypeError
      else Inr \<lparr>
        package = dict_get d ''package'' PNone,
        package_or_url = dict_get d ''package_or_url'' PNone,
        pip_args = dict_get d ''pip_args'' PNone,
        include_dependencies = dict_get d ''include_dependencies'' PNone,
        include_apps = dict_get d ''include_apps'' PNone,
        apps = dict_get d ''apps'' PNone,
        app_paths = dict_get d ''app_paths'' PNone,
        apps_of_dependencies = dict_get d ''apps_of_dependencies'' PNone,
        app_paths_of_dependencies = dict_get d ''app_paths_of_dependencies'' PNone,
        package_version = dict_get d ''package_version'' PNone,
        man_pages = dict_get d ''man_pages'' (PList []),
        man_paths = dict_get d ''man_paths'' (PList []),
        man_pages_of_dependencies = dict_get d ''man_pages_of_dependencies'' (PList []),
        man_paths_of_dependencies = dict_get d ''man_paths_of_dependencies'' (PDict []),
        suffix = dict_get d ''suffix'' (PStr []),
        pinned = dict_get d ''pinned'' (PBool False) \<rparr>)"
| "PackageInfo_of _ = Inl TypeError"

text \<open>\<^verbatim>\<open>dataclasses.asdict\<close>: the fields in the order of their declaration, the values copied.\<close>

definition asdict :: "PackageInfo \<Rightarrow> pyval" where
  "asdict r = PDict
     [(''package'', package r),
      (''package_or_url'', package_or_url r),
      (''pip_args'', pip_args r),
      (''include_dependencies'', include_dependencies r),
      (''include_apps'', include_apps r),
      (''apps'', apps r),
      (''app_paths'', app_paths r),
      (''apps_of_dependencies'', apps_of_dependencies r),
      (''app_paths_of_dependencies'', app_paths_of_dependencies r),
      (''package_version'', package_version r),
      (''man_pages'', man_pages r),
      (''man_paths'', man_paths r),
      (''man_pages_of_dependencies'', man_pages_of_dependencies r),
      (''man_paths_of_dependencies'', man_paths_of_dependencies r),
      (''suffix'', suffix r),
      (''pinned'', pinned r)]"

text \<open>The fields \<^verbatim>\<open>__init__\<close> sets before it reads.\<close>

definition default_main_package :: PackageInfo where
  "default_main_package = \<lparr>
     package = PNone,
     package_or_url = PNone,
     pip_args = PList [],
     include_dependencies = PBool False,
     include_apps = PBool True,
     apps = PList [],
     app_paths = PList [],
     apps_of_dependencies = PList [],
     app_paths_of_dependencies = PDict [],
     package_version = PStr [],
     man_pages = PList [],
     man_paths = PList [],
     man_pages_of_dependencies = PList [],
     man_paths_of_dependencies = PDict [],
     suffix = PStr [],
     pinned = PBool False \<rparr>"

definition init_fields :: "path \<Rightarrow> PipxMetadata" where
  "init_fields dir = \<lparr>
     venv_dir = dir,
     main_package = default_main_package,
     python_version = PNone,
     source_interpreter = PNone,
     venv_args = PList [],
     injected_packages = [] \<rparr>"

definition to_dict :: "PipxMetadata \<Rightarrow> pyval" where
  "to_dict self = PDict
     [(''main_package'', asdict (main_package self)),
      (''python_version'', python_version self),
      (''source_interpreter'', source_interpreter self),
      (''venv_args'', venv_args self),
      (''injected_packages'',
         PDict (map (\<lambda>(name, data). (name, asdict data)) (injected_packages self))),
      (''pipx_metadata_version'', PStr METADATA_VERSION)]"

section \<open>Encoding and decoding\<close>

text \<open>
  \<^verbatim>\<open>JsonEncoderHandlesPath.default\<close> is called for the one kind of object the encoder does
  not know, a path, and returns the tagged dict, which is then encoded as any dict.
\<close>

definition JsonEncoderHandlesPath_default :: "path \<Rightarrow> pyval" where
  "JsonEncoderHandlesPath_default obj =
     PDict [(''__type__'', PStr ''Path''), (''__Path__'', PStr (path_str obj))]"

fun enc_size :: "pyval \<Rightarrow> nat" where
  "enc_size (PPath p) = 4"
| "enc_size (PList xs) = Suc (sum_list (map enc_size xs))"
| "enc_size (PDict kvs) = Suc (sum_list (map (\<lambda>kv. enc_size (snd kv)) kvs))"
| "enc_size _ = 1"

lemma enc_size_member: "v \<in> set xs \<Longrightarrow> enc_size v \<le> sum_list (map enc_size xs)"
  by (induction xs) auto

lemma enc_size_item: "kv \<in> set kvs \<Longrightarrow> enc_size (snd kv) \<le> sum_list (map (\<lambda>kv. enc_size (snd kv)) kvs)"
  by (induction kvs) auto

text \<open>
  \<^verbatim>\<open>json.dump(..., sort_keys=True, cls=JsonEncoderHandlesPath)\<close>, up to the layout of the
  text: the members of every object are written in the order of their keys.
\<close>

function json_dump :: "pyval \<Rightarrow> json" where
  "json_dump PNone = JNull"
| "json_dump (PBool b) = JBool b"
| "json_dump (PInt i) = JInt i"
| "json_dump (PStr s) = JStr s"
| "json_dump (PPath p) = json_dump (JsonEncoderHandlesPath_default p)"
| "json_dump (PList xs) = JArr (map json_dump xs)"
| "json_dump (PDict kvs) = JObj (map (\<lambda>kv. (fst kv, json_dump (snd kv))) (sort_key fst kvs))"
  by pat_completeness auto
termination
proof (relation "measure enc_size", goal_cases)
  case 1
  show ?case by simp
next
  case (2 p)
  show ?case by (simp add: JsonEncoderHandlesPath_default_def)
next
  case (3 xs x)
  then show ?case using enc_size_member [of x xs] by simp
next
  case (4 kvs kv)
  then show ?case using enc_size_item [of kv kvs] by simp
qed

text \<open>
  \<^verbatim>\<open>_json_decoder_object_hook\<close>, called by the decoder on every object once its members
  are decoded.
\<close>

definition json_decoder_object_hook :: "(string \<times> pyval) list \<Rightarrow> error + pyval" where
  "json_decoder_object_hook json_dict =
     (if map_of json_dict ''__type__'' = Some (PStr ''Path'') \<and> ''__Path__'' \<in> set (map fst json_dict)
      then Path_of (dict_get json_dict ''__Path__'' PNone)
      else Inr (PDict json_dict))"

text \<open>\<^verbatim>\<open>dict(pairs)\<close>: a later member with the same key replaces the value of the earlier one.\<close>

definition dict_of_pairs :: "(string \<times> 'v) list \<Rightarrow> (string \<times> 'v) list" where
  "dict_of_pairs pairs = fold (\<lambda>kv d. AList.update (fst kv) (snd kv) d) pairs []"

text \<open>\<^verbatim>\<open>json.load(..., object_hook=_json_decoder_object_hook)\<close> on the document of the text.\<close>

fun json_load :: "json \<Rightarrow> error + pyval"
  and load_list :: "json list \<Rightarrow> error + pyval list"
  and load_pairs :: "(string \<times> json) list \<Rightarrow> error + (string \<times> pyval) list" where
  "json_load JNull = Inr PNone"
| "json_load (JBool b) = Inr (PBool b)"
| "json_load (JInt i) = Inr (PInt i)"
| "json_load (JStr s) = Inr (PStr s)"
| "json_load (JArr js) = (case load_list js of Inl e \<Rightarrow> Inl e | Inr vs \<Rightarrow> Inr (PList vs))"
| "json_load (JObj ms) =
     (case load_pairs ms of Inl e \<Rightarrow> Inl e
      | Inr pairs \<Rightarrow> json_decoder_object_hook (dict_of_pairs pairs))"
| "load_list [] = Inr []"
| "load_list (j # js) =
     (case json_load j of Inl e \<Rightarrow> Inl e
      | Inr v \<Rightarrow> (case load_list js of Inl e \<Rightarrow> Inl e | Inr vs \<Rightarrow> Inr (v # vs)))"
| "load_pairs [] = Inr []"
| "load_pairs (m # ms) =
     (case json_load (snd m) of Inl e \<Rightarrow> Inl e
      | Inr v \<Rightarrow> (case load_pairs ms of Inl e \<Rightarrow> Inl e | Inr pairs \<Rightarrow> Inr ((fst m, v) # pairs)))"

section \<open>Reading a stored record\<close>

text \<open>\<^verbatim>\<open>obj.items()\<close> and \<^verbatim>\<open>obj.get(key, default)\<close>: methods of a dict only.\<close>

fun items :: "pyval \<Rightarrow> error + (string \<times> pyval) list" where
  "items (PDict d) = Inr d"
| "items _ = Inl AttributeError"

fun get_method :: "pyval \<Rightarrow> string \<Rightarrow> pyval \<Rightarrow> error + pyval" where
  "get_method (PDict d) k dflt = Inr (dict_get d k dflt)"
| "get_method _ k dflt = Inl AttributeError"

text \<open>
  \<^verbatim>\<open>_convert_legacy_metadata\<close>. The first test is \<^verbatim>\<open>in ("0.5")\<close>, a string in parentheses
  and no tuple, so it is the substring test. The dict is changed in place and returned; in
  the branch of version 0.1 \<^verbatim>\<open>main_package_data\<close> is the very dict stored under
  \<^verbatim>\<open>"main_package"\<close>, so the suffix assigned to it shows there.
\<close>

definition convert_legacy_metadata :: "PipxMetadata \<Rightarrow> pyval \<Rightarrow> error + pyval" where
  "convert_legacy_metadata self metadata_dict =
     (case getitem metadata_dict ''pipx_metadata_version'' of
        Inl e \<Rightarrow> Inl e
      | Inr version \<Rightarrow>
          (case in_str version METADATA_VERSION of
             Inl e \<Rightarrow> Inl e
           | Inr True \<Rightarrow> Inr metadata_dict
           | Inr False \<Rightarrow>
               if version = PStr ''0.4'' then setitem metadata_dict ''pinned'' (PBool False)
               else if version = PStr ''0.2'' \<or> version = PStr ''0.3''
                 then setitem metadata_dict ''source_interpreter'' PNone
               else if version = PStr ''0.1'' then
                 (case getitem metadata_dict ''main_package'' of
                    Inl e \<Rightarrow> Inl e
                  | Inr main_package_data \<Rightarrow>
                      (case getitem main_package_data ''package'' of
                         Inl e \<Rightarrow> Inl e
                       | Inr pkg \<Rightarrow>
                           (case (if pkg = PStr (path_name (venv_dir self))
                                  then Inr main_package_data
                                  else (case replace (path_name (venv_dir self)) pkg [] of
                                          Inl e \<Rightarrow> Inl e
                                        | Inr s \<Rightarrow> setitem main_package_data ''suffix'' (PStr s))) of
                              Inl e \<Rightarrow> Inl e
                            | Inr main_package_data' \<Rightarrow>
                                (case setitem metadata_dict ''main_package'' main_package_data' of
                                   Inl e \<Rightarrow> Inl e
                                 | Inr d \<Rightarrow> setitem d ''source_interpreter'' PNone))))
               else Inl (PipxError (Unknown_metadata_version
                          (path_name (venv_dir self)) (format version)))))"

text \<open>
  The dict comprehension of \<^verbatim>\<open>from_dict\<close>: for every stored entry, in the order of the
  dict, the key is the stored name followed by the stored suffix, and the value is the
  record built from the entry; a key formed twice keeps the later record.
\<close>

fun injected_from :: "(string \<times> pyval) list \<Rightarrow> (string \<times> PackageInfo) list
    \<Rightarrow> error + (string \<times> PackageInfo) list" where
  "injected_from [] acc = Inr acc"
| "injected_from (entry # rest) acc =
     (case get_method (snd entry) ''suffix'' (PStr []) of
        Inl e \<Rightarrow> Inl e
      | Inr sfx \<Rightarrow>
          (case PackageInfo_of (snd entry) of
             Inl e \<Rightarrow> Inl e
           | Inr info \<Rightarrow> injected_from rest (AList.update (fst entry @ format sfx) info acc)))"

text \<open>
  \<^verbatim>\<open>from_dict\<close> assigns the fields one after the other, so an error leaves the fields
  assigned before it; the result is the outcome and the store as it then is.
\<close>

definition from_dict :: "PipxMetadata \<Rightarrow> pyval \<Rightarrow> (error + unit) \<times> PipxMetadata" where
  "from_dict self input_dict0 =
     (case convert_legacy_metadata self input_dict0 of
        Inl e \<Rightarrow> (Inl e, self)
      | Inr input_dict \<Rightarrow>
     (case (case getitem input_dict ''main_package'' of Inl e \<Rightarrow> Inl e | Inr d \<Rightarrow> PackageInfo_of d) of
        Inl e \<Rightarrow> (Inl e, self)
      | Inr info \<Rightarrow> let self1 = self\<lparr>main_package := info\<rparr> in
     (case getitem input_dict ''python_version'' of
        Inl e \<Rightarrow> (Inl e, self1)
      | Inr pv \<Rightarrow> let self2 = self1\<lparr>python_version := pv\<rparr> in
     (case (case get_method input_dict ''source_interpreter'' PNone of
              Inl e \<Rightarrow> Inl e
            | Inr g \<Rightarrow> if truthy g
                then (case getitem input_dict ''source_interpreter'' of
                        Inl e \<Rightarrow> Inl e | Inr si \<Rightarrow> Path_of si)
                else Inr PNone) of
        Inl e \<Rightarrow> (Inl e, self2)
      | Inr si \<Rightarrow> let self3 = self2\<lparr>source_interpreter := si\<rparr> in
     (case getitem input_dict ''venv_args'' of
        Inl e \<Rightarrow> (Inl e, self3)
      | Inr va \<Rightarrow> let self4 = self3\<lparr>venv_args := va\<rparr> in
     (case (case getitem input_dict ''injected_packages'' of
              Inl e \<Rightarrow> Inl e
            | Inr ip \<Rightarrow> (case items ip of Inl e \<Rightarrow> Inl e | Inr its \<Rightarrow> injected_from its [])) of
        Inl e \<Rightarrow> (Inl e, self4)
      | Inr pkgs \<Rightarrow> (Inr (), self4\<lparr>injected_packages := pkgs\<rparr>)))))))"

section \<open>The file and the log\<close>

text \<open>
  What the module sees of its surroundings: the files by the string of their path (a file
  holds the document of a JSON text, or a text that is no JSON), the paths that cannot be
  opened for reading or for writing, the paths at which a write breaks after the file was
  opened, and the messages sent to the logger. Opening for reading fails with \<^verbatim>\<open>OSError\<close>
  when the file is missing or unreadable, opening for writing when the path is
  unwritable. Opening for writing empties the file; where \<^verbatim>\<open>broken_write\<close> gives a
  content, \<^verbatim>\<open>json.dump\<close> or the closing of the file then fails with \<^verbatim>\<open>OSError\<close> and that
  content (what had reached the file) is left in it. A message is kept by its kind and the
  directory it names; its wording comes from \<^verbatim>\<open>pipx_wrap\<close> and \<^verbatim>\<open>hazard\<close>, which are outside
  this module.
\<close>

datatype file_content = Document json | NotJson

datatype log_entry =
    Debug_corrupt pyval
  | Warning_unable_to_write path string
  | Warning_unable_to_read path string

record world =
  files :: "string \<Rightarrow> file_content option"
  unreadable :: "string set"
  unwritable :: "string set"
  broken_write :: "string \<Rightarrow> file_content option"
  logged :: "log_entry list"

definition metadata_file :: "PipxMetadata \<Rightarrow> string" where
  "metadata_file self = path_str (joinpath (venv_dir self) PIPX_INFO_FILENAME)"

definition open_rb :: "world \<Rightarrow> string \<Rightarrow> file_content option" where
  "open_rb w p = (if p \<in> unreadable w then None else files w p)"

definition validate_before_write :: "PipxMetadata \<Rightarrow> world \<Rightarrow> (error + unit) \<times> world" where
  "validate_before_write self w =
     (if package (main_package self) = PNone
         \<or> package_or_url (main_package self) = PNone
         \<or> \<not> truthy (include_apps (main_package self))
      then (Inl (PipxError PipxMetadata_is_corrupt),
            w\<lparr>logged := logged w @ [Debug_corrupt (to_dict self)]\<rparr>)
      else (Inr (), w))"

text \<open>
  \<^verbatim>\<open>write\<close>. The \<^verbatim>\<open>try\<close> block holds the opening of the file, \<^verbatim>\<open>json.dump\<close> and the closing,
  and an \<^verbatim>\<open>OSError\<close> of any of them is answered by the warning. The store is not changed,
  so the result is the outcome and the world.
\<close>

definition PipxMetadata_write :: "PipxMetadata \<Rightarrow> world \<Rightarrow> (error + unit) \<times> world" where
  "PipxMetadata_write self w =
     (case validate_before_write self w of
        (Inl e, w') \<Rightarrow> (Inl e, w')
      | (Inr u, w') \<Rightarrow>
          if metadata_file self \<in> unwritable w'
          then (Inr (), w'\<lparr>logged := logged w' @
                  [Warning_unable_to_write (venv_dir self) (path_name (venv_dir self))]\<rparr>)
          else (case broken_write w' (metadata_file self) of
                  Some left \<Rightarrow>
                    (Inr (), w'\<lparr>files := (files w')(metadata_file self \<mapsto> left),
                                logged := logged w' @
                  [Warning_unable_to_write (venv_dir self) (path_name (venv_dir self))]\<rparr>)
                | None \<Rightarrow>
                    (Inr (), w'\<lparr>files := (files w')(metadata_file self \<mapsto>
                  Document (json_dump (to_dict self)))\<rparr>)))"

definition read :: "bool \<Rightarrow> PipxMetadata \<Rightarrow> world \<Rightarrow> (error + unit) \<times> PipxMetadata \<times> world" where
  "read verbose self w =
     (case open_rb w (metadata_file self) of
        None \<Rightarrow>
          (Inr (), self,
           if verbose
           then w\<lparr>logged := logged w @
                  [Warning_unable_to_read (venv_dir self) (path_name (venv_dir self))]\<rparr>
           else w)
      | Some NotJson \<Rightarrow> (Inl JSONDecodeError, self, w)
      | Some (Document doc) \<Rightarrow>
          (case json_load doc of
             Inl e \<Rightarrow> (Inl e, self, w)
           | Inr input_dict \<Rightarrow>
               (case from_dict self input_dict of (r, self') \<Rightarrow> (r, self', w))))"

text \<open>
  \<^verbatim>\<open>PipxMetadata(venv_dir, read)\<close>: the fields are set, then the file is read unless
  \<^verbatim>\<open>read\<close> is false; an error of the read is an error of the construction.
\<close>

definition PipxMetadata_init :: "path \<Rightarrow> bool \<Rightarrow> world \<Rightarrow> (error + PipxMetadata) \<times> world" where
  "PipxMetadata_init dir do_read w =
     (if do_read
      then (case read False (init_fields dir) w of
              (Inl e, self, w') \<Rightarrow> (Inl e, w')
            | (Inr u, self, w') \<Rightarrow> (Inr self, w'))
      else (Inr (init_fields dir), w))"

section \<open>Example stores\<close>

text \<open>The check \<^verbatim>\<open>_validate_before_write\<close> makes, as a predicate on the store.\<close>

definition valid_main :: "PipxMetadata \<Rightarrow> bool" where
  "valid_main self =
     (package (main_package self) \<noteq> PNone
      \<and> package_or_url (main_package self) \<noteq> PNone
      \<and> truthy (include_apps (main_package self)))"

definition foo_record :: PackageInfo where
  "foo_record = default_main_package\<lparr>
     package := PStr ''foo'',
     package_or_url := PStr ''foo'',
     apps := PList [PStr ''foo''],
     app_paths := PList [PPath (Path ''/venvs/foo/bin/foo'')],
     man_pages_of_dependencies := PList [PStr ''man1/dep.1''],
     man_paths_of_dependencies :=
       PDict [(''dep'', PList [PPath (Path ''/venvs/foo/share/man/man1/dep.1'')])],
     package_version := PStr ''1.0'' \<rparr>"

definition foo_store :: PipxMetadata where
  "foo_store = (init_fields (Path ''/venvs/foo''))\<lparr>
     main_package := foo_record,
     python_version := PStr ''Python 3.12.1'',
     source_interpreter := PPath (Path ''/usr/bin/python3'') \<rparr>"

definition empty_world :: world where
  "empty_world = \<lparr> files = (\<lambda>p. None), unreadable = {}, unwritable = {},
     broken_write = (\<lambda>p. None), logged = [] \<rparr>"

definition readonly_world :: world where
  "readonly_world = empty_world\<lparr> unwritable := {''/venvs/foo/pipx_metadata.json''} \<rparr>"

text \<open>
  A world whose disk is full: the metadata file of \<^verbatim>\<open>/venvs/foo\<close> holds an earlier record,
  it can be opened for writing, and the write then breaks and leaves a text that is no
  JSON.
\<close>

definition full_disk_world :: world where
  "full_disk_world = empty_world\<lparr>
     files := (\<lambda>p. None)(''/venvs/foo/pipx_metadata.json'' \<mapsto> Document (json_dump (to_dict foo_store))),
     broken_write := (\<lambda>p. None)(''/venvs/foo/pipx_metadata.json'' \<mapsto> NotJson) \<rparr>"

text \<open>
  A stored record as a release before 0.5 wrote it, with the version tag as a parameter:
  the main record has the ten fields without a default and nothing else.
\<close>

definition legacy_record :: "string \<Rightarrow> pyval" where
  "legacy_record v = PDict
     [(''injected_packages'', PDict []),
      (''main_package'', PDict
         [(''app_paths'', PList [PPath (Path ''/venvs/foo-special/bin/foo'')]),
          (''app_paths_of_dependencies'', PDict []),
          (''apps'', PList [PStr ''foo'']),
          (''apps_of_dependencies'', PList []),
          (''include_apps'', PBool True),
          (''include_dependencies'', PBool False),
          (''package'', PStr ''foo''),
          (''package_or_url'', PStr ''foo''),
          (''package_version'', PStr ''1.0''),
          (''pip_args'', PList [])]),
      (''pipx_metadata_version'', PStr v),
      (''python_version'', PStr ''Python 3.8.2''),
      (''venv_args'', PList [])]"

definition foo_special :: PipxMetadata where
  "foo_special = init_fields (Path ''/venvs/foo-special'')"

definition legacy_world :: "string \<Rightarrow> world" where
  "legacy_world v = empty_world\<lparr> files :=
     (\<lambda>p. None)(''/venvs/foo-special/pipx_metadata.json'' \<mapsto> Document (json_dump (legacy_record v))) \<rparr>"

section \<open>Typed stores and their equality\<close>


















section \<open>Validation and writing\<close>

lemma validate_ok: "valid_main self \<Longrightarrow> validate_before_write self w = (Inr (), w)"
  by (simp add: valid_main_def validate_before_write_def)

lemma validate_fails:
  "\<not> valid_main self \<Longrightarrow> validate_before_write self w =
     (Inl (PipxError PipxMetadata_is_corrupt),
      w\<lparr>logged := logged w @ [Debug_corrupt (to_dict self)]\<rparr>)"
  by (auto simp add: valid_main_def validate_before_write_def)

lemma metadata_file_foo:
  "metadata_file (self\<lparr>venv_dir := Path ''/venvs/foo''\<rparr>) = ''/venvs/foo/pipx_metadata.json''"
  by (simp add: metadata_file_def joinpath_def PIPX_INFO_FILENAME_def)

lemma foo_store_file: "metadata_file foo_store = ''/venvs/foo/pipx_metadata.json''"
  by (simp add: foo_store_def init_fields_def metadata_file_def joinpath_def PIPX_INFO_FILENAME_def)

lemma init_fields_file:
  "metadata_file (init_fields dir) = path_str (joinpath dir PIPX_INFO_FILENAME)"
  by (simp add: init_fields_def metadata_file_def)

lemma valid_main_foo_store: "valid_main foo_store"
  by (simp add: valid_main_def foo_store_def foo_record_def default_main_package_def)

lemma write_open_fails:
  assumes "valid_main self" and "metadata_file self \<in> unwritable w"
  shows "PipxMetadata_write self w =
     (Inr (), w\<lparr>logged := logged w @
        [Warning_unable_to_write (venv_dir self) (path_name (venv_dir self))]\<rparr>)"
  using assms by (simp add: PipxMetadata_write_def validate_ok)

lemma write_breaks:
  assumes "valid_main self" and "metadata_file self \<notin> unwritable w"
    and "broken_write w (metadata_file self) = Some left"
  shows "PipxMetadata_write self w =
     (Inr (), w\<lparr>files := (files w)(metadata_file self \<mapsto> left),
                 logged := logged w @
        [Warning_unable_to_write (venv_dir self) (path_name (venv_dir self))]\<rparr>)"
  using assms by (simp add: PipxMetadata_write_def validate_ok)

lemma write_completes:
  assumes "valid_main self" and "metadata_file self \<notin> unwritable w"
    and "broken_write w (metadata_file self) = None"
  shows "PipxMetadata_write self w =
     (Inr (), w\<lparr>files := (files w)(metadata_file self \<mapsto>
        Document (json_dump (to_dict self)))\<rparr>)"
  using assms by (simp add: PipxMetadata_write_def validate_ok)

lemma write_returns:
  assumes "valid_main self"
  shows "fst (PipxMetadata_write self w) = Inr ()"
proof (cases "metadata_file self \<in> unwritable w")
  case True
  then show ?thesis by (simp add: write_open_fails [OF assms])
next
  case False
  then show ?thesis
    by (cases "broken_write w (metadata_file self)")
       (simp_all add: write_completes [OF assms] write_breaks [OF assms])
qed

text \<open>
  C5. \<^verbatim>\<open>write\<close> raises if and only if the package of the main record is absent, its
  \<^verbatim>\<open>package_or_url\<close> is absent or its \<^verbatim>\<open>include_apps\<close> is false (not true, as Python tests
  it); what it raises is the internal-corruption error, and the files are then as they
  were: the check comes before the file is opened.
\<close>

theorem validation_gate:
  "((\<exists>e. fst (PipxMetadata_write self w) = Inl e) \<longleftrightarrow>
      (package (main_package self) = PNone
       \<or> package_or_url (main_package self) = PNone
       \<or> \<not> truthy (include_apps (main_package self))))
   \<and> (\<forall>e. fst (PipxMetadata_write self w) = Inl e \<longrightarrow>
         e = PipxError PipxMetadata_is_corrupt
         \<and> files (snd (PipxMetadata_write self w)) = files w)"
proof (cases "valid_main self")
  case True
  then have "fst (PipxMetadata_write self w) = Inr ()"
    by (rule write_returns)
  with True show ?thesis
    by (simp add: valid_main_def)
next
  case False
  then have "PipxMetadata_write self w =
      (Inl (PipxError PipxMetadata_is_corrupt),
       w\<lparr>logged := logged w @ [Debug_corrupt (to_dict self)]\<rparr>)"
    by (simp add: PipxMetadata_write_def validate_fails)
  with False show ?thesis
    by (simp add: valid_main_def)
qed

theorem validation_gate_witness:
  "package (main_package (init_fields (Path ''/venvs/foo''))) = PNone
   \<and> fst (PipxMetadata_write (init_fields (Path ''/venvs/foo'')) empty_world)
       = Inl (PipxError PipxMetadata_is_corrupt)
   \<and> files (snd (PipxMetadata_write (init_fields (Path ''/venvs/foo'')) empty_world))
       = files empty_world"
proof -
  have absent: "package (main_package (init_fields (Path ''/venvs/foo''))) = PNone"
    by (simp add: init_fields_def default_main_package_def)
  from absent validation_gate [of "init_fields (Path ''/venvs/foo'')" empty_world]
  obtain e where "fst (PipxMetadata_write (init_fields (Path ''/venvs/foo'')) empty_world) = Inl e"
    by blast
  with absent validation_gate [of "init_fields (Path ''/venvs/foo'')" empty_world]
  show ?thesis by auto
qed

text \<open>
  C6. When the store passes the check and the write fails with \<^verbatim>\<open>OSError\<close>, at the opening
  of the file or after it, \<^verbatim>\<open>write\<close> returns normally and the log has one more entry, the
  warning that names the directory. When the opening fails the files are as they were;
  when the failure comes after the opening, the file holds what the broken write left.
\<close>

theorem write_swallows_os_error:
  assumes "valid_main self"
    and "metadata_file self \<in> unwritable w \<or> broken_write w (metadata_file self) \<noteq> None"
  shows "fst (PipxMetadata_write self w) = Inr ()
     \<and> logged (snd (PipxMetadata_write self w)) =
         logged w @ [Warning_unable_to_write (venv_dir self) (path_name (venv_dir self))]
     \<and> (metadata_file self \<in> unwritable w \<longrightarrow>
           files (snd (PipxMetadata_write self w)) = files w)
     \<and> (\<forall>left. metadata_file self \<notin> unwritable w
             \<and> broken_write w (metadata_file self) = Some left \<longrightarrow>
           files (snd (PipxMetadata_write self w)) = (files w)(metadata_file self \<mapsto> left))"
proof (cases "metadata_file self \<in> unwritable w")
  case True
  then show ?thesis by (simp add: write_open_fails [OF assms(1)])
next
  case False
  with assms(2) obtain left where "broken_write w (metadata_file self) = Some left"
    by auto
  with False show ?thesis by (simp add: write_breaks [OF assms(1)])
qed

theorem write_swallows_os_error_witness:
  "valid_main foo_store \<and> metadata_file foo_store \<in> unwritable readonly_world
   \<and> fst (PipxMetadata_write foo_store readonly_world) = Inr ()
   \<and> logged (snd (PipxMetadata_write foo_store readonly_world)) =
       [Warning_unable_to_write (Path ''/venvs/foo'') ''foo'']
   \<and> files (snd (PipxMetadata_write foo_store readonly_world)) = files readonly_world"
proof -
  have 1: "valid_main foo_store" by (rule valid_main_foo_store)
  have 2: "metadata_file foo_store \<in> unwritable readonly_world"
    by (simp add: foo_store_file readonly_world_def)
  have 3: "venv_dir foo_store = Path ''/venvs/foo''"
    by (simp add: foo_store_def init_fields_def)
  have 4: "path_name (Path ''/venvs/foo'') = ''foo''"
    by (simp add: path_name_def)
  have 5: "logged readonly_world = []"
    by (simp add: readonly_world_def empty_world_def)
  from 2 have 6: "metadata_file foo_store \<in> unwritable readonly_world
      \<or> broken_write readonly_world (metadata_file foo_store) \<noteq> None"
    by simp
  from write_swallows_os_error [OF 1 6] 1 2 show ?thesis
    by (simp add: 3 4 5)
qed

text \<open>
  A failed write does not always leave the files as they were. On the full disk the
  store passes the check, the write returns normally with the warning, and the file that
  held the earlier record holds a broken text.
\<close>

theorem write_failure_truncates_counterexample:
  "valid_main foo_store
   \<and> fst (PipxMetadata_write foo_store full_disk_world) = Inr ()
   \<and> logged (snd (PipxMetadata_write foo_store full_disk_world)) =
       [Warning_unable_to_write (Path ''/venvs/foo'') ''foo'']
   \<and> files full_disk_world ''/venvs/foo/pipx_metadata.json'' =
       Some (Document (json_dump (to_dict foo_store)))
   \<and> files (snd (PipxMetadata_write foo_store full_disk_world)) ''/venvs/foo/pipx_metadata.json'' =
       Some NotJson
   \<and> files (snd (PipxMetadata_write foo_store full_disk_world)) \<noteq> files full_disk_world"
proof -
  have 1: "valid_main foo_store" by (rule valid_main_foo_store)
  have 2: "metadata_file foo_store \<notin> unwritable full_disk_world"
    by (simp add: full_disk_world_def empty_world_def)
  have 3: "broken_write full_disk_world (metadata_file foo_store) = Some NotJson"
    by (simp add: foo_store_file full_disk_world_def)
  have 4: "venv_dir foo_store = Path ''/venvs/foo''"
    by (simp add: foo_store_def init_fields_def)
  have 5: "path_name (Path ''/venvs/foo'') = ''foo''"
    by (simp add: path_name_def)
  have 6: "logged full_disk_world = []"
    by (simp add: full_disk_world_def empty_world_def)
  have 7: "files full_disk_world ''/venvs/foo/pipx_metadata.json'' =
       Some (Document (json_dump (to_dict foo_store)))"
    by (simp add: full_disk_world_def)
  have 8: "files (snd (PipxMetadata_write foo_store full_disk_world)) ''/venvs/foo/pipx_metadata.json'' =
       Some NotJson"
    by (simp add: write_breaks [OF 1 2 3] foo_store_file)
  have 9: "files (snd (PipxMetadata_write foo_store full_disk_world)) \<noteq> files full_disk_world"
  proof
    assume "files (snd (PipxMetadata_write foo_store full_disk_world)) = files full_disk_world"
    with 7 8 show False by simp
  qed
  from 1 7 8 9 show ?thesis
    by (simp add: write_breaks [OF 1 2 3] 4 5 6)
qed

text \<open>
  C9. When the store passes the check and the write completes, \<^verbatim>\<open>write\<close> leaves in the
  file the encoding of \<^verbatim>\<open>to_dict\<close>, which depends on the store alone, and a second
  \<^verbatim>\<open>write\<close> of the same store leaves the same content.
\<close>

theorem write_twice_same_content:
  assumes "valid_main self" and "metadata_file self \<notin> unwritable w"
    and "broken_write w (metadata_file self) = None"
  shows "fst (PipxMetadata_write self w) = Inr ()
     \<and> fst (PipxMetadata_write self (snd (PipxMetadata_write self w))) = Inr ()
     \<and> files (snd (PipxMetadata_write self w)) (metadata_file self)
         = Some (Document (json_dump (to_dict self)))
     \<and> files (snd (PipxMetadata_write self (snd (PipxMetadata_write self w))))
         = files (snd (PipxMetadata_write self w))"
proof -
  let ?w1 = "w\<lparr>files := (files w)(metadata_file self \<mapsto> Document (json_dump (to_dict self)))\<rparr>"
  have first: "PipxMetadata_write self w = (Inr (), ?w1)"
    by (rule write_completes [OF assms])
  have "metadata_file self \<notin> unwritable ?w1" and "broken_write ?w1 (metadata_file self) = None"
    using assms(2,3) by simp_all
  from write_completes [OF assms(1) this] have "PipxMetadata_write self ?w1 = (Inr (), ?w1)"
    by simp
  with first show ?thesis by simp
qed

theorem write_twice_same_content_witness:
  "valid_main foo_store \<and> metadata_file foo_store \<notin> unwritable empty_world
   \<and> broken_write empty_world (metadata_file foo_store) = None
   \<and> files (snd (PipxMetadata_write foo_store (snd (PipxMetadata_write foo_store empty_world))))
       = files (snd (PipxMetadata_write foo_store empty_world))
   \<and> files (snd (PipxMetadata_write foo_store empty_world)) ''/venvs/foo/pipx_metadata.json''
       = Some (Document (json_dump (to_dict foo_store)))"
proof -
  have 1: "valid_main foo_store" by (rule valid_main_foo_store)
  have 2: "metadata_file foo_store \<notin> unwritable empty_world"
    by (simp add: empty_world_def)
  have 3: "broken_write empty_world (metadata_file foo_store) = None"
    by (simp add: empty_world_def)
  from write_twice_same_content [OF 1 2 3] 1 2 3 show ?thesis
    by (simp add: foo_store_file)
qed

text \<open>
  C10. The check looks at the main record only: a store whose main record passes is
  written whatever its injected records are, also when one of them has no package, no
  \<^verbatim>\<open>package_or_url\<close> or \<^verbatim>\<open>include_apps\<close> false.
\<close>

theorem only_main_package_validated:
  assumes "valid_main self"
  shows "validate_before_write (self\<lparr>injected_packages := pkgs\<rparr>) w = (Inr (), w)
     \<and> fst (PipxMetadata_write (self\<lparr>injected_packages := pkgs\<rparr>) w) = Inr ()"
proof -
  from assms have "valid_main (self\<lparr>injected_packages := pkgs\<rparr>)"
    by (simp add: valid_main_def)
  then show ?thesis
    by (simp add: validate_ok write_returns)
qed

theorem only_main_package_validated_witness:
  "valid_main foo_store
   \<and> package (default_main_package\<lparr>include_apps := PBool False\<rparr>) = PNone
   \<and> fst (PipxMetadata_write
        (foo_store\<lparr>injected_packages :=
           [(''bar'', default_main_package\<lparr>include_apps := PBool False\<rparr>)]\<rparr>) empty_world) = Inr ()"
proof -
  have 1: "valid_main foo_store" by (rule valid_main_foo_store)
  from only_main_package_validated [OF 1] 1 show ?thesis
    by (simp add: default_main_package_def)
qed

section \<open>Reading when the file cannot be opened\<close>

lemma read_os_error:
  assumes "open_rb w (metadata_file self) = None"
  shows "read verbose self w =
     (Inr (), self,
      if verbose
      then w\<lparr>logged := logged w @
             [Warning_unable_to_read (venv_dir self) (path_name (venv_dir self))]\<rparr>
      else w)"
  using assms by (simp add: read_def)

text \<open>
  C8. Constructing a store for a directory whose metadata file cannot be opened (a missing
  file is the case in point) does not fail, and the store has the fields \<^verbatim>\<open>__init__\<close>
  sets: no package and no \<^verbatim>\<open>package_or_url\<close>, \<^verbatim>\<open>include_apps\<close> true, an empty version,
  empty lists and dicts, not pinned, no python version and no interpreter, no venv
  arguments and no injected packages.
\<close>

theorem init_without_file_gives_defaults:
  assumes "open_rb w (path_str (joinpath dir PIPX_INFO_FILENAME)) = None"
  shows "\<exists>self. PipxMetadata_init dir True w = (Inr self, w)
     \<and> venv_dir self = dir
     \<and> package (main_package self) = PNone
     \<and> package_or_url (main_package self) = PNone
     \<and> pip_args (main_package self) = PList []
     \<and> include_dependencies (main_package self) = PBool False
     \<and> include_apps (main_package self) = PBool True
     \<and> apps (main_package self) = PList []
     \<and> app_paths (main_package self) = PList []
     \<and> apps_of_dependencies (main_package self) = PList []
     \<and> app_paths_of_dependencies (main_package self) = PDict []
     \<and> package_version (main_package self) = PStr []
     \<and> man_pages (main_package self) = PList []
     \<and> man_paths (main_package self) = PList []
     \<and> man_pages_of_dependencies (main_package self) = PList []
     \<and> man_paths_of_dependencies (main_package self) = PDict []
     \<and> suffix (main_package self) = PStr []
     \<and> pinned (main_package self) = PBool False
     \<and> python_version self = PNone
     \<and> source_interpreter self = PNone
     \<and> venv_args self = PList []
     \<and> injected_packages self = []"
proof -
  have "read False (init_fields dir) w = (Inr (), init_fields dir, w)"
    using assms by (simp add: read_os_error init_fields_file)
  then have "PipxMetadata_init dir True w = (Inr (init_fields dir), w)"
    by (simp add: PipxMetadata_init_def)
  then show ?thesis
    by (simp add: init_fields_def default_main_package_def)
qed

theorem init_without_file_gives_defaults_witness:
  "files empty_world ''/venvs/foo/pipx_metadata.json'' = None
   \<and> (\<exists>self. PipxMetadata_init (Path ''/venvs/foo'') True empty_world = (Inr self, empty_world)
        \<and> package (main_package self) = PNone
        \<and> include_apps (main_package self) = PBool True
        \<and> injected_packages self = [])"
proof -
  have 1: "open_rb empty_world (path_str (joinpath (Path ''/venvs/foo'') PIPX_INFO_FILENAME)) = None"
    by (simp add: open_rb_def empty_world_def)
  have 2: "files empty_world ''/venvs/foo/pipx_metadata.json'' = None"
    by (simp add: empty_world_def)
  from init_without_file_gives_defaults [OF 1] 2 show ?thesis
    by blast
qed

text \<open>
  C3. The branch of \<^verbatim>\<open>read\<close> for a file that cannot be opened logs at most a warning and
  returns: it assigns no field. A store whose fields were set keeps them, here the store
  of package \<^verbatim>\<open>foo\<close> read in a world without files; its fields are not the ones
  \<^verbatim>\<open>__init__\<close> sets.
\<close>

theorem read_failure_keeps_fields:
  "files empty_world (metadata_file foo_store) = None
   \<and> read False foo_store empty_world = (Inr (), foo_store, empty_world)
   \<and> package (main_package foo_store) = PStr ''foo''
   \<and> foo_store \<noteq> init_fields (venv_dir foo_store)"
proof -
  have 1: "open_rb empty_world (metadata_file foo_store) = None"
    by (simp add: open_rb_def empty_world_def)
  have 2: "package (main_package foo_store) = PStr ''foo''"
    by (simp add: foo_store_def foo_record_def)
  have 3: "package (main_package (init_fields (venv_dir foo_store))) = PNone"
    by (simp add: init_fields_def default_main_package_def)
  have 4: "foo_store \<noteq> init_fields (venv_dir foo_store)"
    using 2 3 by auto
  show ?thesis
    using read_os_error [OF 1, of False] 2 4 by (simp add: empty_world_def)
qed

section \<open>Upcasting stored records\<close>

lemma getitem_Inr_dict: "getitem d k = Inr v \<Longrightarrow> \<exists>dd. d = PDict dd \<and> map_of dd k = Some v"
  by (cases d) (auto split: option.splits)

lemma convert_unknown_version:
  assumes "getitem d ''pipx_metadata_version'' = Inr (PStr v)"
    and "\<not> is_substring v METADATA_VERSION"
    and "v \<notin> set [''0.4'', ''0.3'', ''0.2'', ''0.1'']"
  shows "convert_legacy_metadata self d =
     Inl (PipxError (Unknown_metadata_version (path_name (venv_dir self)) v))"
  using assms by (simp add: convert_legacy_metadata_def)

lemma from_dict_unknown_version:
  assumes "getitem d ''pipx_metadata_version'' = Inr (PStr v)"
    and "\<not> is_substring v METADATA_VERSION"
    and "v \<notin> set [''0.4'', ''0.3'', ''0.2'', ''0.1'']"
  shows "from_dict self d =
     (Inl (PipxError (Unknown_metadata_version (path_name (venv_dir self)) v)), self)"
  using convert_unknown_version [OF assms] by (simp add: from_dict_def)

lemma foo_special_file: "metadata_file foo_special = ''/venvs/foo-special/pipx_metadata.json''"
  by (simp add: foo_special_def init_fields_def metadata_file_def joinpath_def PIPX_INFO_FILENAME_def)

lemma foo_special_name: "path_name (venv_dir foo_special) = ''foo-special''"
  by (simp add: foo_special_def init_fields_def path_name_def)

lemma from_dict_Inr:
  assumes "fst (from_dict self d) = Inr ()"
  obtains d' mp info pv si va ip its pkgs where
    "convert_legacy_metadata self d = Inr d'"
    "getitem d' ''main_package'' = Inr mp"
    "PackageInfo_of mp = Inr info"
    "getitem d' ''python_version'' = Inr pv"
    "(case get_method d' ''source_interpreter'' PNone of
        Inl e \<Rightarrow> Inl e
      | Inr g \<Rightarrow> if truthy g
          then (case getitem d' ''source_interpreter'' of Inl e \<Rightarrow> Inl e | Inr si \<Rightarrow> Path_of si)
          else Inr PNone) = Inr si"
    "getitem d' ''venv_args'' = Inr va"
    "getitem d' ''injected_packages'' = Inr ip"
    "items ip = Inr its"
    "injected_from its [] = Inr pkgs"
    "snd (from_dict self d) = self\<lparr>main_package := info, python_version := pv,
        source_interpreter := si, venv_args := va, injected_packages := pkgs\<rparr>"
proof -
  from assms obtain d' where 1: "convert_legacy_metadata self d = Inr d'"
    by (cases "convert_legacy_metadata self d") (simp_all add: from_dict_def)
  from assms 1 obtain mp where 2: "getitem d' ''main_package'' = Inr mp"
    by (cases "getitem d' ''main_package''") (simp_all add: from_dict_def)
  from assms 1 2 obtain info where 3: "PackageInfo_of mp = Inr info"
    by (cases "PackageInfo_of mp") (simp_all add: from_dict_def)
  from assms 1 2 3 obtain pv where 4: "getitem d' ''python_version'' = Inr pv"
    by (cases "getitem d' ''python_version''") (simp_all add: from_dict_def)
  let ?si = "(case get_method d' ''source_interpreter'' PNone of
        Inl e \<Rightarrow> Inl e
      | Inr g \<Rightarrow> if truthy g
          then (case getitem d' ''source_interpreter'' of Inl e \<Rightarrow> Inl e | Inr si \<Rightarrow> Path_of si)
          else Inr PNone)"
  from assms 1 2 3 4 obtain si where 5: "?si = Inr si"
    by (cases ?si) (simp_all add: from_dict_def)
  from assms 1 2 3 4 5 obtain va where 6: "getitem d' ''venv_args'' = Inr va"
    by (cases "getitem d' ''venv_args''") (simp_all add: from_dict_def)
  from assms 1 2 3 4 5 6 obtain ip where 7: "getitem d' ''injected_packages'' = Inr ip"
    by (cases "getitem d' ''injected_packages''") (simp_all add: from_dict_def)
  from assms 1 2 3 4 5 6 7 obtain its where 8: "items ip = Inr its"
    by (cases "items ip") (simp_all add: from_dict_def)
  from assms 1 2 3 4 5 6 7 8 obtain pkgs where 9: "injected_from its [] = Inr pkgs"
    by (cases "injected_from its []") (simp_all add: from_dict_def)
  have 10: "snd (from_dict self d) = self\<lparr>main_package := info, python_version := pv,
        source_interpreter := si, venv_args := va, injected_packages := pkgs\<rparr>"
    using 1 2 3 4 5 6 7 8 9 by (simp add: from_dict_def)
  from that 1 2 3 4 5 6 7 8 9 10 show thesis by blast
qed


lemma PackageInfo_of_Inr:
  assumes "PackageInfo_of v = Inr info"
  obtains d where "v = PDict d"
    and "suffix info = dict_get d ''suffix'' (PStr [])"
    and "pinned info = dict_get d ''pinned'' (PBool False)"
proof (cases v)
  case (PDict d)
  with assms have "info = \<lparr>
        package = dict_get d ''package'' PNone,
        package_or_url = dict_get d ''package_or_url'' PNone,
        pip_args = dict_get d ''pip_args'' PNone,
        include_dependencies = dict_get d ''include_dependencies'' PNone,
        include_apps = dict_get d ''include_apps'' PNone,
        apps = dict_get d ''apps'' PNone,
        app_paths = dict_get d ''app_paths'' PNone,
        apps_of_dependencies = dict_get d ''apps_of_dependencies'' PNone,
        app_paths_of_dependencies = dict_get d ''app_paths_of_dependencies'' PNone,
        package_version = dict_get d ''package_version'' PNone,
        man_pages = dict_get d ''man_pages'' (PList []),
        man_paths = dict_get d ''man_paths'' (PList []),
        man_pages_of_dependencies = dict_get d ''man_pages_of_dependencies'' (PList []),
        man_paths_of_dependencies = dict_get d ''man_paths_of_dependencies'' (PDict []),
        suffix = dict_get d ''suffix'' (PStr []),
        pinned = dict_get d ''pinned'' (PBool False) \<rparr>"
    by (simp split: if_splits)
  then have "suffix info = dict_get d ''suffix'' (PStr [])"
    and "pinned info = dict_get d ''pinned'' (PBool False)"
    by simp_all
  with PDict that show thesis by blast
qed (use assms in simp_all)

text \<open>
  C2. The first test of \<^verbatim>\<open>_convert_legacy_metadata\<close> is a substring test against
  \<^verbatim>\<open>"0.5"\<close>, so a record tagged \<^verbatim>\<open>"5"\<close>, which is none of the recognized versions, is
  taken as current: \<^verbatim>\<open>read\<close> raises nothing and fills the store from it.
\<close>

theorem version_5_read_without_error:
  "''5'' \<notin> set [''0.1'', ''0.2'', ''0.3'', ''0.4'', ''0.5'']
   \<and> fst (read False foo_special (legacy_world ''5'')) = Inr ()
   \<and> package (main_package (fst (snd (read False foo_special (legacy_world ''5''))))) = PStr ''foo''
   \<and> fst (snd (read False foo_special (legacy_world ''5''))) \<noteq> foo_special"
  by code_simp

text \<open>
  C4. For a record of version 0.1 whose main package is named by a string other than the
  name of the directory, the upcast returns the record with the suffix of the main
  package set to the directory name without the occurrences of the package name, and
  with no source interpreter; so has them the store when \<^verbatim>\<open>from_dict\<close> succeeds.
\<close>

theorem upcast_0_1_suffix:
  assumes "getitem d ''pipx_metadata_version'' = Inr (PStr ''0.1'')"
    and "getitem d ''main_package'' = Inr mp"
    and "getitem mp ''package'' = Inr (PStr p)"
    and "p \<noteq> path_name (venv_dir self)"
  shows "(\<exists>d' mp'. convert_legacy_metadata self d = Inr d'
            \<and> getitem d' ''main_package'' = Inr mp'
            \<and> getitem mp' ''suffix'' = Inr (PStr (str_replace (path_name (venv_dir self)) p []))
            \<and> getitem d' ''source_interpreter'' = Inr PNone)
     \<and> (fst (from_dict self d) = Inr () \<longrightarrow>
           suffix (main_package (snd (from_dict self d)))
             = PStr (str_replace (path_name (venv_dir self)) p [])
           \<and> source_interpreter (snd (from_dict self d)) = PNone)"
proof -
  from assms(1) obtain dd where d: "d = PDict dd"
    and ver: "map_of dd ''pipx_metadata_version'' = Some (PStr ''0.1'')"
    using getitem_Inr_dict by blast
  from assms(2) d have mp_in: "map_of dd ''main_package'' = Some mp"
    by (simp split: option.splits)
  from assms(3) obtain mm where mp: "mp = PDict mm" and pkg: "map_of mm ''package'' = Some (PStr p)"
    using getitem_Inr_dict by blast
  define s where "s = str_replace (path_name (venv_dir self)) p []"
  define mp1 where "mp1 = PDict (AList.update ''suffix'' (PStr s) mm)"
  define d1 where "d1 = PDict (AList.update ''source_interpreter'' PNone
                          (AList.update ''main_package'' mp1 dd))"
  have conv: "convert_legacy_metadata self d = Inr d1"
    using ver mp_in pkg assms(4)
    by (simp add: convert_legacy_metadata_def d mp METADATA_VERSION_def d1_def mp1_def s_def)
  have g1: "getitem d1 ''main_package'' = Inr mp1"
    by (simp add: d1_def update_conv')
  have g2: "getitem mp1 ''suffix'' = Inr (PStr s)"
    by (simp add: mp1_def update_conv')
  have g3: "getitem d1 ''source_interpreter'' = Inr PNone"
    by (simp add: d1_def update_conv')
  have g4: "get_method d1 ''source_interpreter'' PNone = Inr PNone"
    by (simp add: d1_def dict_get_def update_conv')
  have first: "\<exists>d' mp'. convert_legacy_metadata self d = Inr d'
            \<and> getitem d' ''main_package'' = Inr mp'
            \<and> getitem mp' ''suffix'' = Inr (PStr s)
            \<and> getitem d' ''source_interpreter'' = Inr PNone"
    using conv g1 g2 g3 by (intro exI conjI)
  have second: "suffix (main_package (snd (from_dict self d))) = PStr s
           \<and> source_interpreter (snd (from_dict self d)) = PNone"
    if ok: "fst (from_dict self d) = Inr ()"
  proof (rule from_dict_Inr [OF ok])
    fix d' mp' info pv si va pkgs
    assume c: "convert_legacy_metadata self d = Inr d'"
      and m: "getitem d' ''main_package'' = Inr mp'"
      and i: "PackageInfo_of mp' = Inr info"
      and si: "(case get_method d' ''source_interpreter'' PNone of
        Inl e \<Rightarrow> Inl e
      | Inr g \<Rightarrow> if truthy g
          then (case getitem d' ''source_interpreter'' of Inl e \<Rightarrow> Inl e | Inr si \<Rightarrow> Path_of si)
          else Inr PNone) = Inr si"
      and r: "snd (from_dict self d) = self\<lparr>main_package := info, python_version := pv,
        source_interpreter := si, venv_args := va, injected_packages := pkgs\<rparr>"
    from c conv have d': "d' = d1" by simp
    from m g1 d' have mp': "mp' = mp1" by simp
    from i [unfolded mp'] have sfx: "suffix info = PStr s"
    proof (rule PackageInfo_of_Inr)
      fix x
      assume a: "mp1 = PDict x" and b: "suffix info = dict_get x ''suffix'' (PStr [])"
      from a have "x = AList.update ''suffix'' (PStr s) mm" by (simp add: mp1_def)
      with b show ?thesis by (simp add: dict_get_def update_conv')
    qed
    from si have "si = PNone"
      by (simp add: d' g4)
    with sfx r show ?thesis by simp
  qed
  from first second show ?thesis
    unfolding s_def by blast
qed

theorem upcast_0_1_suffix_witness:
  "path_name (venv_dir foo_special) = ''foo-special''
   \<and> getitem (legacy_record ''0.1'') ''pipx_metadata_version'' = Inr (PStr ''0.1'')
   \<and> fst (from_dict foo_special (legacy_record ''0.1'')) = Inr ()
   \<and> suffix (main_package (snd (from_dict foo_special (legacy_record ''0.1'')))) = PStr ''-special''
   \<and> source_interpreter (snd (from_dict foo_special (legacy_record ''0.1''))) = PNone"
proof -
  let ?mp = "PDict
         [(''app_paths'', PList [PPath (Path ''/venvs/foo-special/bin/foo'')]),
          (''app_paths_of_dependencies'', PDict []),
          (''apps'', PList [PStr ''foo'']),
          (''apps_of_dependencies'', PList []),
          (''include_apps'', PBool True),
          (''include_dependencies'', PBool False),
          (''package'', PStr ''foo''),
          (''package_or_url'', PStr ''foo''),
          (''package_version'', PStr ''1.0''),
          (''pip_args'', PList [])]"
  have 1: "getitem (legacy_record ''0.1'') ''pipx_metadata_version'' = Inr (PStr ''0.1'')"
    by (simp add: legacy_record_def)
  have 2: "getitem (legacy_record ''0.1'') ''main_package'' = Inr ?mp"
    by (simp add: legacy_record_def)
  have 3: "getitem ?mp ''package'' = Inr (PStr ''foo'')"
    by simp
  have 4: "''foo'' \<noteq> path_name (venv_dir foo_special)"
    by (simp add: foo_special_name)
  have 5: "fst (from_dict foo_special (legacy_record ''0.1'')) = Inr ()"
    by code_simp
  have 6: "str_replace ''foo-special'' ''foo'' [] = ''-special''"
    by simp
  from upcast_0_1_suffix [OF 1 2 3 4] 1 5 show ?thesis
    by (simp add: foo_special_name 6)
qed

text \<open>
  C7. For a record of version 0.4 whose main record has no \<^verbatim>\<open>pinned\<close> key, the upcast
  stores \<^verbatim>\<open>pinned = False\<close> at the top of the record, and the main package that
  \<^verbatim>\<open>from_dict\<close> builds is not pinned (by the default of the field).
\<close>

theorem upcast_0_4_pinned:
  assumes "getitem d ''pipx_metadata_version'' = Inr (PStr ''0.4'')"
    and "getitem d ''main_package'' = Inr (PDict mp)"
    and "map_of mp ''pinned'' = None"
  shows "convert_legacy_metadata self d = setitem d ''pinned'' (PBool False)
     \<and> (fst (from_dict self d) = Inr () \<longrightarrow>
           pinned (main_package (snd (from_dict self d))) = PBool False)"
proof -
  from assms(1) obtain dd where d: "d = PDict dd"
    and ver: "map_of dd ''pipx_metadata_version'' = Some (PStr ''0.4'')"
    using getitem_Inr_dict by blast
  from assms(2) d have mp_in: "map_of dd ''main_package'' = Some (PDict mp)"
    by (simp split: option.splits)
  let ?d' = "PDict (AList.update ''pinned'' (PBool False) dd)"
  have conv: "convert_legacy_metadata self d = Inr ?d'"
    using ver by (simp add: convert_legacy_metadata_def d METADATA_VERSION_def)
  have g1: "getitem ?d' ''main_package'' = Inr (PDict mp)"
    using mp_in by (simp add: update_conv')
  have second: "pinned (main_package (snd (from_dict self d))) = PBool False"
    if ok: "fst (from_dict self d) = Inr ()"
  proof (rule from_dict_Inr [OF ok])
    fix d' mp' info pv si va pkgs
    assume c: "convert_legacy_metadata self d = Inr d'"
      and m: "getitem d' ''main_package'' = Inr mp'"
      and i: "PackageInfo_of mp' = Inr info"
      and r: "snd (from_dict self d) = self\<lparr>main_package := info, python_version := pv,
        source_interpreter := si, venv_args := va, injected_packages := pkgs\<rparr>"
    from c conv have d': "d' = ?d'" by simp
    from m g1 d' have mp': "mp' = PDict mp" by simp
    from i [unfolded mp'] have "pinned info = PBool False"
    proof (rule PackageInfo_of_Inr)
      fix x
      assume "PDict mp = PDict x" and "pinned info = dict_get x ''pinned'' (PBool False)"
      with assms(3) show ?thesis by (simp add: dict_get_def)
    qed
    then show ?thesis using r by simp
  qed
  have first: "convert_legacy_metadata self d = setitem d ''pinned'' (PBool False)"
    using conv by (simp add: d)
  from first second show ?thesis by blast
qed

theorem upcast_0_4_pinned_witness:
  "getitem (legacy_record ''0.4'') ''pipx_metadata_version'' = Inr (PStr ''0.4'')
   \<and> fst (from_dict foo_special (legacy_record ''0.4'')) = Inr ()
   \<and> pinned (main_package (snd (from_dict foo_special (legacy_record ''0.4'')))) = PBool False"
proof -
  let ?mp = "[(''app_paths'', PList [PPath (Path ''/venvs/foo-special/bin/foo'')]),
          (''app_paths_of_dependencies'', PDict []),
          (''apps'', PList [PStr ''foo'']),
          (''apps_of_dependencies'', PList []),
          (''include_apps'', PBool True),
          (''include_dependencies'', PBool False),
          (''package'', PStr ''foo''),
          (''package_or_url'', PStr ''foo''),
          (''package_version'', PStr ''1.0''),
          (''pip_args'', PList [])]"
  have 1: "getitem (legacy_record ''0.4'') ''pipx_metadata_version'' = Inr (PStr ''0.4'')"
    by (simp add: legacy_record_def)
  have 2: "getitem (legacy_record ''0.4'') ''main_package'' = Inr (PDict ?mp)"
    by (simp add: legacy_record_def)
  have 3: "map_of ?mp ''pinned'' = None"
    by simp
  have 4: "fst (from_dict foo_special (legacy_record ''0.4'')) = Inr ()"
    by code_simp
  from upcast_0_4_pinned [OF 1 2 3, of foo_special] 1 4 show ?thesis
    by simp
qed

section \<open>Writing and reading back\<close>

subsection \<open>Decoding what was encoded\<close>









lemma map_fst_map_snd: "map fst (map (\<lambda>kv. (fst kv, g (snd kv))) kvs) = map fst kvs"
  by (induction kvs) auto


lemma type_before_Path: "\<not> ''__type__'' \<le> ''__Path__''"
  by simp














































subsection \<open>The round trip\<close>




end
